theory Spec2Isabelle
  imports Main "HOL-Library.AList"
begin

section \<open>Python values, dictionaries and errors\<close>

text \<open>
  The values that occur in the theme and style tables: strings (colour codes, symbolic
  references), integers (padding, font sizes) and tuples (font descriptors).
\<close>

datatype pyval = VStr string | VInt int | VTuple "pyval list"

text \<open>
  A dictionary with string keys is an association list in insertion order, as a Python
  dict keeps it. Subscripting a missing key raises KeyError; indexing a list out of range
  raises IndexError. TclError is what the toolkit raises; it carries the theme name that
  the toolkit refused.
\<close>

type_synonym 'v pydict = "(string \<times> 'v) list"

datatype py_error = KeyError string | IndexError | TclError string

definition getitem :: "'v pydict \<Rightarrow> string \<Rightarrow> py_error + 'v" where
  "getitem d k = (case map_of d k of None \<Rightarrow> Inl (KeyError k) | Some v \<Rightarrow> Inr v)"

definition list_index :: "'a list \<Rightarrow> nat \<Rightarrow> py_error + 'a" where
  "list_index xs i = (if i < length xs then Inr (xs ! i) else Inl IndexError)"

text \<open>\<^verbatim>\<open>s.startswith(p)\<close> and \<^verbatim>\<open>s.split(sep)\<close> for a one-character separator.\<close>

definition startswith :: "string \<Rightarrow> string \<Rightarrow> bool" where
  "startswith s p = (take (length p) s = p)"

fun str_split :: "string \<Rightarrow> char \<Rightarrow> string list" where
  "str_split [] sep = [[]]"
| "str_split (c # cs) sep =
     (if c = sep then [] # str_split cs sep
      else (case str_split cs sep of [] \<Rightarrow> [[c]] | w # ws \<Rightarrow> (c # w) # ws))"

text \<open>
  Keyword arguments and dict displays are evaluated left to right; the first
  subscript that raises aborts the evaluation.
\<close>

fun kwargs :: "(string \<times> (py_error + pyval)) list \<Rightarrow> py_error + pyval pydict" where
  "kwargs [] = Inr []"
| "kwargs ((k, e) # rest) =
     (case e of
        Inl err \<Rightarrow> Inl err
      | Inr v \<Rightarrow> (case kwargs rest of Inl err \<Rightarrow> Inl err | Inr d \<Rightarrow> Inr ((k, v) # d)))"

section \<open>themes.py: ThemeManager\<close>

record theme =
  name :: string
  colors :: "pyval pydict"
  fonts :: "pyval pydict"

text \<open>
  The toolkit's style object (\<^verbatim>\<open>ttk.Style\<close>) is outside the repository. The model keeps
  what the program's calls depend on: the names of the themes the toolkit knows, and the
  calls that returned, in order, with their evaluated arguments.
  \<^item> \<^verbatim>\<open>theme_create(name, parent)\<close> raises TclError when the name exists already or the
    parent does not; otherwise the name is known from then on.
  \<^item> \<^verbatim>\<open>theme_use(name)\<close> raises TclError for a name the toolkit does not know.
  \<^item> \<^verbatim>\<open>configure\<close> and \<^verbatim>\<open>map\<close> accept any style name and options.
  A style object on a fresh Tk interpreter knows the themes that every Tk build provides.
\<close>

datatype style_call =
    ThemeCreate string string
  | ThemeUse string
  | Configure string "pyval pydict"
  | StyleMap string "(string \<times> (string \<times> pyval) list) list"

record style_engine =
  theme_names :: "string list"
  received :: "style_call list"

definition ttk_Style :: style_engine where
  "ttk_Style = \<lparr> theme_names = [''default'', ''classic'', ''alt'', ''clam''], received = [] \<rparr>"

fun receive :: "style_call \<Rightarrow> style_engine \<Rightarrow> py_error + style_engine" where
  "receive (ThemeCreate themename parent) e =
     (if themename \<in> set (theme_names e) then Inl (TclError themename)
      else if parent \<in> set (theme_names e) then
        Inr (e\<lparr>theme_names := theme_names e @ [themename],
               received := received e @ [ThemeCreate themename parent]\<rparr>)
      else Inl (TclError parent))"
| "receive (ThemeUse themename) e =
     (if themename \<in> set (theme_names e) then
        Inr (e\<lparr>received := received e @ [ThemeUse themename]\<rparr>)
      else Inl (TclError themename))"
| "receive (Configure widget d) e = Inr (e\<lparr>received := received e @ [Configure widget d]\<rparr>)"
| "receive (StyleMap widget d) e = Inr (e\<lparr>received := received e @ [StyleMap widget d]\<rparr>)"

record theme_manager =
  current_theme :: string
  themes :: "theme pydict"
  style :: style_engine

definition get_light_theme :: theme where
  "get_light_theme =
     \<lparr> name = ''light'',
       colors =
         [(''primary'', VStr ''#4a6fa5''),
          (''secondary'', VStr ''#6c757d''),
          (''success'', VStr ''#28a745''),
          (''danger'', VStr ''#dc3545''),
          (''warning'', VStr ''#ffc107''),
          (''info'', VStr ''#17a2b8''),
          (''bg'', VStr ''#f8f9fa''),
          (''fg'', VStr ''#212529''),
          (''entry_bg'', VStr ''#ffffff''),
          (''select_bg'', VStr ''#e2e6ea''),
          (''select_fg'', VStr ''#000000''),
          (''border'', VStr ''#ced4da''),
          (''button_bg'', VStr ''#e9ecef''),
          (''button_active'', VStr ''#d3d9df''),
          (''text_bg'', VStr ''#ffffff'')],
       fonts =
         [(''default'', VTuple [VStr ''Segoe UI'', VInt 10]),
          (''heading'', VTuple [VStr ''Segoe UI'', VInt 12, VStr ''bold'']),
          (''title'', VTuple [VStr ''Segoe UI'', VInt 14, VStr ''bold''])] \<rparr>"

definition get_dark_theme :: theme where
  "get_dark_theme =
     \<lparr> name = ''dark'',
       colors =
         [(''primary'', VStr ''#5a86c2''),
          (''secondary'', VStr ''#5c636a''),
          (''success'', VStr ''#2ecc71''),
          (''danger'', VStr ''#e74c3c''),
          (''warning'', VStr ''#f39c12''),
          (''info'', VStr ''#3498db''),
          (''bg'', VStr ''#2d2d2d''),
          (''fg'', VStr ''#e0e0e0''),
          (''entry_bg'', VStr ''#1e1e1e''),
          (''select_bg'', VStr ''#3d3d3d''),
          (''select_fg'', VStr ''#ffffff''),
          (''border'', VStr ''#444444''),
          (''button_bg'', VStr ''#3d3d3d''),
          (''button_active'', VStr ''#4d4d4d''),
          (''text_bg'', VStr ''#252525'')],
       fonts =
         [(''default'', VTuple [VStr ''Segoe UI'', VInt 10]),
          (''heading'', VTuple [VStr ''Segoe UI'', VInt 12, VStr ''bold'']),
          (''title'', VTuple [VStr ''Segoe UI'', VInt 14, VStr ''bold''])] \<rparr>"

text \<open>\<^verbatim>\<open>ThemeManager.__init__\<close>: theme "light" is active, the style object is fresh.\<close>

definition ThemeManager_init :: theme_manager where
  "ThemeManager_init =
     \<lparr> current_theme = ''light'',
       themes = [(''light'', get_light_theme), (''dark'', get_dark_theme)],
       style = ttk_Style \<rparr>"

text \<open>
  \<^verbatim>\<open>_configure_theme\<close> is a straight line of calls on the style object. Each call's
  arguments are evaluated first (they subscript the theme's tables), then the call is
  made; \<open>perform\<close> runs such a line and stops where an argument or a call raises.
\<close>

definition configure_call :: "string \<Rightarrow> (string \<times> (py_error + pyval)) list \<Rightarrow> py_error + style_call" where
  "configure_call widget args =
     (case kwargs args of Inl err \<Rightarrow> Inl err | Inr d \<Rightarrow> Inr (Configure widget d))"

definition map_call :: "string \<Rightarrow> (string \<times> string \<times> (py_error + pyval)) list \<Rightarrow> py_error + style_call" where
  "map_call widget args =
     (case kwargs (map (\<lambda>(opt, st, e). (opt, e)) args) of
        Inl err \<Rightarrow> Inl err
      | Inr d \<Rightarrow> Inr (StyleMap widget (map (\<lambda>((opt, st, e), (opt', v)). (opt, [(st, v)])) (zip args d))))"

fun perform :: "(py_error + style_call) list \<Rightarrow> style_engine \<Rightarrow> py_error option \<times> style_engine" where
  "perform [] e = (None, e)"
| "perform (Inl err # rest) e = (Some err, e)"
| "perform (Inr c # rest) e =
     (case receive c e of Inl err \<Rightarrow> (Some err, e) | Inr e' \<Rightarrow> perform rest e')"

definition configure_theme_calls :: "theme \<Rightarrow> (py_error + style_call) list" where
  "configure_theme_calls th =
     (let colors = colors th; fonts = fonts th in
      [Inr (ThemeCreate (name th) ''alt''),
       Inr (ThemeUse (name th)),
       configure_call ''.''
         [(''background'', getitem colors ''bg''),
          (''foreground'', getitem colors ''fg''),
          (''font'', getitem fonts ''default''),
          (''borderwidth'', Inr (VInt 1))],
       configure_call ''TFrame'' [(''background'', getitem colors ''bg'')],
       configure_call ''TLabel''
         [(''background'', getitem colors ''bg''),
          (''foreground'', getitem colors ''fg'')],
       configure_call ''TEntry''
         [(''fieldbackground'', getitem colors ''entry_bg''),
          (''foreground'', getitem colors ''fg''),
          (''insertcolor'', getitem colors ''fg''),
          (''bordercolor'', getitem colors ''border''),
          (''lightcolor'', getitem colors ''border''),
          (''darkcolor'', getitem colors ''border'')],
       configure_call ''TButton''
         [(''background'', getitem colors ''button_bg''),
          (''foreground'', getitem colors ''fg''),
          (''bordercolor'', getitem colors ''border''),
          (''focusthickness'', Inr (VInt 3)),
          (''focuscolor'', getitem colors ''primary'')],
       map_call ''TButton''
         [(''background'', ''active'', getitem colors ''button_active''),
          (''foreground'', ''active'', getitem colors ''fg'')],
       configure_call ''Treeview''
         [(''background'', getitem colors ''entry_bg''),
          (''foreground'', getitem colors ''fg''),
          (''fieldbackground'', getitem colors ''entry_bg''),
          (''rowheight'', Inr (VInt 25))],
       configure_call ''Treeview.Heading''
         [(''background'', getitem colors ''button_bg''),
          (''foreground'', getitem colors ''fg''),
          (''font'', getitem fonts ''heading'')],
       map_call ''Treeview''
         [(''background'', ''selected'', getitem colors ''select_bg''),
          (''foreground'', ''selected'', getitem colors ''select_fg'')]])"

definition configure_theme :: "theme \<Rightarrow> theme_manager \<Rightarrow> py_error option \<times> theme_manager" where
  "configure_theme th tm =
     (case perform (configure_theme_calls th) (style tm) of
        (r, s) \<Rightarrow> (r, tm\<lparr>style := s\<rparr>))"

text \<open>\<^verbatim>\<open>setup_themes\<close>: the loop over \<^verbatim>\<open>self.themes.values()\<close>.\<close>

fun configure_each :: "theme list \<Rightarrow> theme_manager \<Rightarrow> py_error option \<times> theme_manager" where
  "configure_each [] tm = (None, tm)"
| "configure_each (th # ths) tm =
     (case configure_theme th tm of
        (Some err, tm') \<Rightarrow> (Some err, tm')
      | (None, tm') \<Rightarrow> configure_each ths tm')"

definition setup_themes :: "theme_manager \<Rightarrow> py_error option \<times> theme_manager" where
  "setup_themes tm = configure_each (map snd (themes tm)) tm"

text \<open>
  \<^verbatim>\<open>toggle_theme\<close> assigns the field, tells the style object, then subscripts the
  themes table with the new name. The state is returned with the result: when the style
  object raises, the field is assigned already and the subscript is not reached.
\<close>

definition toggle_theme :: "theme_manager \<Rightarrow> (py_error + theme) \<times> theme_manager" where
  "toggle_theme tm =
     (let tm1 = tm\<lparr>current_theme := (if current_theme tm = ''light'' then ''dark'' else ''light'')\<rparr>
      in case receive (ThemeUse (current_theme tm1)) (style tm1) of
           Inl err \<Rightarrow> (Inl err, tm1)
         | Inr e \<Rightarrow>
             (let tm2 = tm1\<lparr>style := e\<rparr>
              in (getitem (themes tm2) (current_theme tm2), tm2)))"

definition get_current_theme :: "theme_manager \<Rightarrow> py_error + theme" where
  "get_current_theme tm = getitem (themes tm) (current_theme tm)"

definition get_style :: "theme_manager \<Rightarrow> string \<Rightarrow> py_error + pyval pydict option" where
  "get_style tm style_name =
     (if style_name = ''Action.TButton'' then
        (case get_current_theme tm of
           Inl err \<Rightarrow> Inl err
         | Inr current \<Rightarrow>
             (case kwargs
                [(''background'', getitem (colors current) ''button_bg''),
                 (''foreground'', getitem (colors current) ''fg''),
                 (''font'', getitem (fonts current) ''default''),
                 (''padding'', Inr (VInt 5))] of
                Inl err \<Rightarrow> Inl err
              | Inr d \<Rightarrow> Inr (Some d)))
      else Inr None)"

section \<open>styles.py: AppStyles\<close>

text \<open>
  \<^verbatim>\<open>AppStyles.__init__\<close> keeps a reference to the ThemeManager and builds the table
  \<^verbatim>\<open>self.styles\<close>, which no method assigns afterwards. The shared ThemeManager is passed
  explicitly to \<open>setup_styles\<close>.
\<close>

definition AppStyles_styles :: "pyval pydict pydict" where
  "AppStyles_styles =
     [(''Main.TFrame'', [(''background'', VStr ''colors.bg'')]),
      (''Header.TLabel'',
         [(''font'', VStr ''fonts.heading''),
          (''background'', VStr ''colors.bg''),
          (''foreground'', VStr ''colors.primary'')]),
      (''Action.TButton'',
         [(''font'', VStr ''fonts.default''),
          (''padding'', VInt 5),
          (''background'', VStr ''colors.button_bg''),
          (''foreground'', VStr ''colors.fg'')]),
      (''Login.TLabel'', [(''font'', VStr ''fonts.default'')]),
      (''Login.TButton'',
         [(''font'', VStr ''fonts.default''),
          (''padding'', VInt 5)]),
      (''Login.TEntry'',
         [(''font'', VStr ''fonts.default''),
          (''padding'', VInt 5)]),
      (''Treeview.Heading'',
         [(''font'', VStr ''fonts.heading''),
          (''background'', VStr ''colors.button_bg''),
          (''foreground'', VStr ''colors.fg'')])]"

text \<open>The body of the inner loop: one value of a style's configuration.\<close>

definition resolve_value :: "theme \<Rightarrow> pyval \<Rightarrow> py_error + pyval" where
  "resolve_value current v =
     (case v of
        VStr s \<Rightarrow>
          (if startswith s ''colors.'' then
             (case list_index (str_split s CHR ''.'') 1 of
                Inl err \<Rightarrow> Inl err
              | Inr color_key \<Rightarrow> getitem (colors current) color_key)
           else if startswith s ''fonts.'' then
             (case list_index (str_split s CHR ''.'') 1 of
                Inl err \<Rightarrow> Inl err
              | Inr font_key \<Rightarrow> getitem (fonts current) font_key)
           else Inr v)
      | _ \<Rightarrow> Inr v)"

text \<open>
  The inner loop over \<^verbatim>\<open>style_config.items()\<close>, with \<^verbatim>\<open>resolved_config\<close> as the
  accumulator; \<^verbatim>\<open>resolved_config[key] = ...\<close> is the dict update.
\<close>

fun resolve_config :: "theme \<Rightarrow> pyval pydict \<Rightarrow> pyval pydict \<Rightarrow> py_error + pyval pydict" where
  "resolve_config current [] resolved_config = Inr resolved_config"
| "resolve_config current ((key, v) # rest) resolved_config =
     (case resolve_value current v of
        Inl err \<Rightarrow> Inl err
      | Inr r \<Rightarrow> resolve_config current rest (AList.update key r resolved_config))"

text \<open>The outer loop over \<^verbatim>\<open>self.styles.items()\<close>.\<close>

fun apply_styles :: "theme \<Rightarrow> pyval pydict pydict \<Rightarrow> theme_manager \<Rightarrow> py_error option \<times> theme_manager" where
  "apply_styles current [] tm = (None, tm)"
| "apply_styles current ((style_name, style_config) # rest) tm =
     (case resolve_config current style_config [] of
        Inl err \<Rightarrow> (Some err, tm)
      | Inr resolved_config \<Rightarrow>
          (case receive (Configure style_name resolved_config) (style tm) of
             Inl err \<Rightarrow> (Some err, tm)
           | Inr e \<Rightarrow> apply_styles current rest (tm\<lparr>style := e\<rparr>)))"

definition setup_styles :: "pyval pydict pydict \<Rightarrow> theme_manager \<Rightarrow> py_error option \<times> theme_manager" where
  "setup_styles styles tm =
     (case get_current_theme tm of
        Inl err \<Rightarrow> (Some err, tm)
      | Inr current \<Rightarrow> apply_styles current styles tm)"

section \<open>Reachable states\<close>

text \<open>
  The operations a client can call on a ThemeManager and on the AppStyles that shares it.
  \<open>run\<close> gives the state after a call; the two queries assign nothing.
\<close>

datatype operation = SetupThemes | ToggleTheme | GetCurrentTheme | GetStyle string | SetupStyles

fun run :: "operation \<Rightarrow> theme_manager \<Rightarrow> theme_manager" where
  "run SetupThemes tm = snd (setup_themes tm)"
| "run ToggleTheme tm = snd (toggle_theme tm)"
| "run GetCurrentTheme tm = tm"
| "run (GetStyle style_name) tm = tm"
| "run SetupStyles tm = snd (setup_styles AppStyles_styles tm)"

inductive reachable :: "theme_manager \<Rightarrow> bool" where
  init: "reachable ThemeManager_init"
| step: "reachable tm \<Longrightarrow> reachable (run m tm)"

section \<open>Notions used in the statements\<close>

text \<open>
  The calls that the outer loop of \<open>setup_styles\<close> makes before it stops, and the error
  that stopped it, without the surrounding state.
\<close>

fun style_calls :: "theme \<Rightarrow> pyval pydict pydict \<Rightarrow> style_call list \<times> py_error option" where
  "style_calls current [] = ([], None)"
| "style_calls current ((style_name, style_config) # rest) =
     (case resolve_config current style_config [] of
        Inl err \<Rightarrow> ([], Some err)
      | Inr resolved_config \<Rightarrow>
          (case style_calls current rest of
             (cs, r) \<Rightarrow> (Configure style_name resolved_config # cs, r)))"

text \<open>The dictionaries that a log of calls configures under one style name, in call order.\<close>

fun configured :: "string \<Rightarrow> style_call list \<Rightarrow> pyval pydict list" where
  "configured n [] = []"
| "configured n (Configure n' d # cs) = (if n' = n then d # configured n cs else configured n cs)"
| "configured n (c # cs) = configured n cs"

text \<open>The style object knows both theme names of the program.\<close>

definition registered :: "theme_manager \<Rightarrow> bool" where
  "registered tm =
     (''light'' \<in> set (theme_names (style tm)) \<and> ''dark'' \<in> set (theme_names (style tm)))"

text \<open>
  The specification's reading of a symbolic reference: a string \<^verbatim>\<open>"<domain>.<key>"\<close>, the
  key being what follows the domain and the dot. A value is symbolic when it is a string
  starting with \<^verbatim>\<open>"colors."\<close> or \<^verbatim>\<open>"fonts."\<close>, and literal otherwise.
\<close>

definition spec_reference_key :: "string \<Rightarrow> pyval \<Rightarrow> string option" where
  "spec_reference_key domain v =
     (case v of
        VStr s \<Rightarrow> (if startswith s (domain @ ''.'') then Some (drop (length domain + 1) s) else None)
      | _ \<Rightarrow> None)"

definition is_symbolic :: "pyval \<Rightarrow> bool" where
  "is_symbolic v = (case v of VStr s \<Rightarrow> startswith s ''colors.'' \<or> startswith s ''fonts.'' | _ \<Rightarrow> False)"

text \<open>
  The specification's resolution of one value against a theme: a colour reference
  becomes the theme's colour under its key, a font reference the theme's font, anything
  else stays. \<open>None\<close> when the key is missing.
\<close>

definition spec_resolve :: "theme \<Rightarrow> pyval \<Rightarrow> pyval option" where
  "spec_resolve th v =
     (case spec_reference_key ''colors'' v of
        Some k \<Rightarrow> map_of (colors th) k
      | None \<Rightarrow>
          (case spec_reference_key ''fonts'' v of
             Some k \<Rightarrow> map_of (fonts th) k
           | None \<Rightarrow> Some v))"

text \<open>
  A call applies a table entry as the specification asks: it configures the entry's style
  name with the same property names in the same order, each value resolved as above and
  literal.
\<close>

definition resolved_property :: "theme \<Rightarrow> string \<times> pyval \<Rightarrow> string \<times> pyval \<Rightarrow> bool" where
  "resolved_property th p q =
     (fst q = fst p \<and> spec_resolve th (snd p) = Some (snd q) \<and> \<not> is_symbolic (snd q))"

definition applies_entry :: "theme \<Rightarrow> string \<times> pyval pydict \<Rightarrow> style_call \<Rightarrow> bool" where
  "applies_entry th entry call =
     (case call of
        Configure n d \<Rightarrow> n = fst entry \<and> list_all2 (resolved_property th) (snd entry) d
      | _ \<Rightarrow> False)"

text \<open>A result is an exception.\<close>

definition raises :: "py_error + 'a \<Rightarrow> bool" where
  "raises r = (case r of Inl err \<Rightarrow> True | Inr v \<Rightarrow> False)"

text \<open>
  The specification's invariant for one value of a style: if it is a reference, its key is
  a key of the theme's table for its domain.
\<close>

definition references_present :: "theme \<Rightarrow> pyval \<Rightarrow> bool" where
  "references_present th v =
     (case spec_reference_key ''colors'' v of
        Some k \<Rightarrow> k \<in> set (map fst (colors th))
      | None \<Rightarrow>
          (case spec_reference_key ''fonts'' v of
             Some k \<Rightarrow> k \<in> set (map fst (fonts th))
           | None \<Rightarrow> True))"

section \<open>Frame and invariant lemmas\<close>

lemma configure_theme_frame:
  "snd (configure_theme th tm) = tm\<lparr>style := snd (perform (configure_theme_calls th) (style tm))\<rparr>"
  by (simp add: configure_theme_def split: prod.split)

lemma configure_each_frame:
  "\<exists>s. snd (configure_each ths tm) = tm\<lparr>style := s\<rparr>"
proof (induction ths arbitrary: tm)
  case Nil
  have "tm = tm\<lparr>style := style tm\<rparr>" by simp
  then show ?case by (metis configure_each.simps(1) snd_conv)
next
  case (Cons th ths)
  obtain r tm' where c: "configure_theme th tm = (r, tm')" by (cases "configure_theme th tm")
  then have tm': "tm' = tm\<lparr>style := snd (perform (configure_theme_calls th) (style tm))\<rparr>"
    using configure_theme_frame [of th tm] by simp
  show ?case
  proof (cases r)
    case None
    from Cons.IH [of tm'] obtain s where "snd (configure_each ths tm') = tm'\<lparr>style := s\<rparr>" ..
    with c None tm' show ?thesis by auto
  next
    case (Some err)
    with c tm' show ?thesis by auto
  qed
qed

lemma setup_themes_frame: "\<exists>s. snd (setup_themes tm) = tm\<lparr>style := s\<rparr>"
  unfolding setup_themes_def by (rule configure_each_frame)

lemma apply_styles_calls:
  "apply_styles current styles tm =
     (snd (style_calls current styles),
      tm\<lparr>style := (style tm)\<lparr>received := received (style tm) @ fst (style_calls current styles)\<rparr>\<rparr>)"
proof (induction styles arbitrary: tm)
  case Nil
  show ?case by simp
next
  case (Cons entry styles)
  obtain n cfg where entry: "entry = (n, cfg)" by (cases entry)
  show ?case
  proof (cases "resolve_config current cfg []")
    case (Inl err)
    with entry show ?thesis by simp
  next
    case (Inr resolved)
    with entry Cons.IH show ?thesis by (simp split: prod.split)
  qed
qed

lemma toggle_theme_state:
  "snd (toggle_theme tm) =
     tm\<lparr>current_theme := (if current_theme tm = ''light'' then ''dark'' else ''light''),
        style :=
          (if (if current_theme tm = ''light'' then ''dark'' else ''light'') \<in> set (theme_names (style tm))
           then (style tm)\<lparr>received := received (style tm) @
                  [ThemeUse (if current_theme tm = ''light'' then ''dark'' else ''light'')]\<rparr>
           else style tm)\<rparr>"
  by (simp add: toggle_theme_def Let_def)

lemma toggle_theme_current:
  "current_theme (snd (toggle_theme tm)) = (if current_theme tm = ''light'' then ''dark'' else ''light'')"
  "themes (snd (toggle_theme tm)) = themes tm"
  "theme_names (style (snd (toggle_theme tm))) = theme_names (style tm)"
  by (simp_all add: toggle_theme_state)

lemma setup_styles_frame:
  "\<exists>cs. snd (setup_styles styles tm) = tm\<lparr>style := (style tm)\<lparr>received := received (style tm) @ cs\<rparr>\<rparr>"
proof (cases "get_current_theme tm")
  case (Inl err)
  have "tm = tm\<lparr>style := (style tm)\<lparr>received := received (style tm) @ []\<rparr>\<rparr>" by simp
  with Inl show ?thesis by (metis setup_styles_def sum.simps(5) snd_conv)
next
  case (Inr current)
  then show ?thesis by (auto simp: setup_styles_def apply_styles_calls)
qed

lemma run_themes: "themes (run m tm) = themes tm"
proof (cases m)
  case SetupThemes
  obtain s where "snd (setup_themes tm) = tm\<lparr>style := s\<rparr>" using setup_themes_frame ..
  with SetupThemes show ?thesis by simp
next
  case ToggleTheme
  then show ?thesis by (simp add: toggle_theme_current)
next
  case SetupStyles
  obtain cs where "snd (setup_styles AppStyles_styles tm) =
      tm\<lparr>style := (style tm)\<lparr>received := received (style tm) @ cs\<rparr>\<rparr>"
    using setup_styles_frame ..
  with SetupStyles show ?thesis by simp
qed simp_all

lemma run_current_theme:
  "current_theme (run m tm) =
     (if m = ToggleTheme then (if current_theme tm = ''light'' then ''dark'' else ''light'')
      else current_theme tm)"
proof (cases m)
  case SetupThemes
  obtain s where "snd (setup_themes tm) = tm\<lparr>style := s\<rparr>" using setup_themes_frame ..
  with SetupThemes show ?thesis by simp
next
  case ToggleTheme
  then show ?thesis by (simp add: toggle_theme_current)
next
  case SetupStyles
  obtain cs where "snd (setup_styles AppStyles_styles tm) =
      tm\<lparr>style := (style tm)\<lparr>received := received (style tm) @ cs\<rparr>\<rparr>"
    using setup_styles_frame ..
  with SetupStyles show ?thesis by simp
qed simp_all

lemma reachable_invariant:
  assumes "reachable tm"
  shows "themes tm = [(''light'', get_light_theme), (''dark'', get_dark_theme)]
         \<and> (current_theme tm = ''light'' \<or> current_theme tm = ''dark'')"
  using assms
proof (induction rule: reachable.induct)
  case init
  show ?case by (simp add: ThemeManager_init_def)
next
  case (step tm m)
  then show ?case by (simp add: run_themes run_current_theme)
qed

text \<open>The style object never forgets a theme name.\<close>

lemma receive_names:
  "receive c e = Inr e' \<Longrightarrow> set (theme_names e) \<subseteq> set (theme_names e')"
  by (cases c) (auto split: if_splits)

lemma perform_names: "set (theme_names e) \<subseteq> set (theme_names (snd (perform cs e)))"
proof (induction cs e rule: perform.induct)
  case (3 c rest e)
  show ?case
  proof (cases "receive c e")
    case (Inl err)
    then show ?thesis by simp
  next
    case (Inr e')
    with 3 [OF Inr] receive_names [OF Inr] show ?thesis by auto
  qed
qed simp_all

lemma configure_each_names:
  "set (theme_names (style tm)) \<subseteq> set (theme_names (style (snd (configure_each ths tm))))"
proof (induction ths arbitrary: tm)
  case Nil
  show ?case by simp
next
  case (Cons th ths)
  obtain r tm' where c: "configure_theme th tm = (r, tm')" by (cases "configure_theme th tm")
  then have tm': "tm' = tm\<lparr>style := snd (perform (configure_theme_calls th) (style tm))\<rparr>"
    using configure_theme_frame [of th tm] by simp
  then have sub: "set (theme_names (style tm)) \<subseteq> set (theme_names (style tm'))"
    using perform_names [of "style tm" "configure_theme_calls th"] by simp
  show ?case
  proof (cases r)
    case None
    with c have "configure_each (th # ths) tm = configure_each ths tm'" by simp
    with sub Cons.IH [of tm'] show ?thesis by auto
  next
    case (Some err)
    with c have "configure_each (th # ths) tm = (Some err, tm')" by simp
    with sub show ?thesis by simp
  qed
qed

lemma run_names: "set (theme_names (style tm)) \<subseteq> set (theme_names (style (run m tm)))"
proof (cases m)
  case SetupThemes
  then show ?thesis using configure_each_names [of tm "map snd (themes tm)"]
    by (simp add: setup_themes_def)
next
  case ToggleTheme
  then show ?thesis by (simp add: toggle_theme_current)
next
  case SetupStyles
  obtain cs where "snd (setup_styles AppStyles_styles tm) =
      tm\<lparr>style := (style tm)\<lparr>received := received (style tm) @ cs\<rparr>\<rparr>"
    using setup_styles_frame ..
  with SetupStyles show ?thesis by simp
qed simp_all

lemma run_registered: "registered tm \<Longrightarrow> registered (run m tm)"
  using run_names [of tm m] by (auto simp: registered_def)

lemma setup_themes_init:
  "fst (setup_themes ThemeManager_init) = None"
  "theme_names (style (snd (setup_themes ThemeManager_init))) =
     [''default'', ''classic'', ''alt'', ''clam'', ''light'', ''dark'']"
  by code_simp+

lemma get_current_theme_reachable:
  assumes "reachable tm"
  shows "get_current_theme tm =
           Inr (if current_theme tm = ''light'' then get_light_theme else get_dark_theme)"
proof -
  from assms have t: "themes tm = [(''light'', get_light_theme), (''dark'', get_dark_theme)]"
    and c: "current_theme tm = ''light'' \<or> current_theme tm = ''dark''"
    by (simp_all add: reachable_invariant)
  from c show ?thesis
  proof
    assume "current_theme tm = ''light''"
    with t show ?thesis by (simp add: get_current_theme_def getitem_def)
  next
    assume "current_theme tm = ''dark''"
    with t show ?thesis by (simp add: get_current_theme_def getitem_def)
  qed
qed

lemma toggle_theme_result:
  assumes "reachable tm"
  shows "fst (toggle_theme tm) =
           (if current_theme tm = ''light''
            then (if ''dark'' \<in> set (theme_names (style tm)) then Inr get_dark_theme
                  else Inl (TclError ''dark''))
            else (if ''light'' \<in> set (theme_names (style tm)) then Inr get_light_theme
                  else Inl (TclError ''light'')))"
proof -
  from assms have t: "themes tm = [(''light'', get_light_theme), (''dark'', get_dark_theme)]"
    by (simp add: reachable_invariant)
  then show ?thesis by (simp add: toggle_theme_def Let_def getitem_def)
qed

lemma style_calls_light:
  "snd (style_calls get_light_theme AppStyles_styles) = None"
  "list_all2 (applies_entry get_light_theme) AppStyles_styles
     (fst (style_calls get_light_theme AppStyles_styles))"
  by code_simp+

lemma style_calls_dark:
  "snd (style_calls get_dark_theme AppStyles_styles) = None"
  "list_all2 (applies_entry get_dark_theme) AppStyles_styles
     (fst (style_calls get_dark_theme AppStyles_styles))"
  by code_simp+

lemma setup_styles_reachable:
  assumes "reachable tm"
  shows "setup_styles AppStyles_styles tm =
           (None, tm\<lparr>style := (style tm)\<lparr>received := received (style tm) @
              fst (style_calls (if current_theme tm = ''light'' then get_light_theme else get_dark_theme)
                     AppStyles_styles)\<rparr>\<rparr>)"
  using get_current_theme_reachable [OF assms]
  by (simp add: setup_styles_def apply_styles_calls style_calls_light(1) style_calls_dark(1))

lemma theme_names_of: "name get_light_theme = ''light''" "name get_dark_theme = ''dark''"
  by (simp_all add: get_light_theme_def get_dark_theme_def)

text \<open>Two states that the examples start from.\<close>

lemma toggled_init:
  "reachable (run ToggleTheme ThemeManager_init)"
  "current_theme (run ToggleTheme ThemeManager_init) = ''dark''"
  "themes (run ToggleTheme ThemeManager_init) =
     [(''light'', get_light_theme), (''dark'', get_dark_theme)]"
proof -
  show "reachable (run ToggleTheme ThemeManager_init)"
    by (intro reachable.step reachable.init)
qed (simp_all add: toggle_theme_current ThemeManager_init_def)

lemma setup_init:
  "reachable (run SetupThemes ThemeManager_init)"
  "current_theme (run SetupThemes ThemeManager_init) = ''light''"
  "registered (run SetupThemes ThemeManager_init)"
proof -
  show "reachable (run SetupThemes ThemeManager_init)"
    by (intro reachable.step reachable.init)
  show "current_theme (run SetupThemes ThemeManager_init) = ''light''"
    by (simp only: run_current_theme) (simp add: ThemeManager_init_def)
  show "registered (run SetupThemes ThemeManager_init)"
    by (simp add: registered_def setup_themes_init(2))
qed

section \<open>Claims\<close>



text \<open>
  Claim C2. In every reachable state, calling \<open>toggle_theme\<close> twice leaves
  \<open>current_theme\<close> at the name it had before the first call.
\<close>

theorem toggle_theme_involution:
  assumes "reachable tm"
  shows "current_theme (snd (toggle_theme (snd (toggle_theme tm)))) = current_theme tm"
  using reachable_invariant [OF assms] by (auto simp: toggle_theme_current)

theorem toggle_theme_involution_witness:
  "reachable ThemeManager_init \<and>
   current_theme (snd (toggle_theme (snd (toggle_theme ThemeManager_init)))) = ''light''"
  using toggle_theme_involution [OF reachable.init] reachable.init
  by (simp add: ThemeManager_init_def)

lemma configured_append: "configured n (xs @ ys) = configured n xs @ configured n ys"
  by (induction n xs rule: configured.induct) simp_all

lemma configured_toggle_theme:
  "configured ''Header.TLabel'' (received (style (snd (toggle_theme tm)))) =
     configured ''Header.TLabel'' (received (style tm))"
  by (simp add: toggle_theme_state configured_append)

lemma header_label_calls:
  "configured ''Header.TLabel'' (fst (style_calls get_light_theme AppStyles_styles)) =
     [[(''font'', VTuple [VStr ''Segoe UI'', VInt 12, VStr ''bold'']),
       (''background'', VStr ''#f8f9fa''),
       (''foreground'', VStr ''#4a6fa5'')]]"
  "configured ''Header.TLabel'' (fst (style_calls get_dark_theme AppStyles_styles)) =
     [[(''font'', VTuple [VStr ''Segoe UI'', VInt 12, VStr ''bold'']),
       (''background'', VStr ''#2d2d2d''),
       (''foreground'', VStr ''#5a86c2'')]]"
  by code_simp+

text \<open>
  Claim C3. With theme "light" active, \<open>setup_styles\<close> configures "Header.TLabel" with
  exactly font ("Segoe UI", 12, "bold"), background "#f8f9fa", foreground "#4a6fa5"; after
  \<open>toggle_theme\<close> the theme "dark" is active and \<open>setup_styles\<close> configures
  "Header.TLabel" with exactly font ("Segoe UI", 12, "bold"), background "#2d2d2d",
  foreground "#5a86c2".
\<close>

theorem header_label_light_then_dark:
  assumes "reachable tm" and "current_theme tm = ''light''"
  shows "let tm1 = snd (setup_styles AppStyles_styles tm);
             tm2 = snd (toggle_theme tm1);
             tm3 = snd (setup_styles AppStyles_styles tm2)
         in configured ''Header.TLabel'' (received (style tm1)) =
              configured ''Header.TLabel'' (received (style tm)) @
                [[(''font'', VTuple [VStr ''Segoe UI'', VInt 12, VStr ''bold'']),
                  (''background'', VStr ''#f8f9fa''),
                  (''foreground'', VStr ''#4a6fa5'')]]
            \<and> current_theme tm1 = ''light'' \<and> current_theme tm2 = ''dark''
            \<and> configured ''Header.TLabel'' (received (style tm3)) =
              configured ''Header.TLabel'' (received (style tm2)) @
                [[(''font'', VTuple [VStr ''Segoe UI'', VInt 12, VStr ''bold'']),
                  (''background'', VStr ''#2d2d2d''),
                  (''foreground'', VStr ''#5a86c2'')]]"
proof -
  define tm1 where "tm1 = snd (setup_styles AppStyles_styles tm)"
  define tm2 where "tm2 = snd (toggle_theme tm1)"
  define tm3 where "tm3 = snd (setup_styles AppStyles_styles tm2)"
  have r1: "reachable tm1"
    using reachable.step [OF assms(1), of SetupStyles] by (simp add: tm1_def)
  have r2: "reachable tm2"
    using reachable.step [OF r1, of ToggleTheme] by (simp add: tm2_def)
  have s1: "tm1 = tm\<lparr>style := (style tm)\<lparr>received := received (style tm) @
              fst (style_calls get_light_theme AppStyles_styles)\<rparr>\<rparr>"
    using setup_styles_reachable [OF assms(1)] assms(2) by (simp add: tm1_def)
  then have c1: "current_theme tm1 = ''light''" using assms(2) by simp
  have c2: "current_theme tm2 = ''dark''"
    using c1 by (simp add: tm2_def toggle_theme_current)
  have s3: "tm3 = tm2\<lparr>style := (style tm2)\<lparr>received := received (style tm2) @
              fst (style_calls get_dark_theme AppStyles_styles)\<rparr>\<rparr>"
    using setup_styles_reachable [OF r2] c2 by (simp add: tm3_def)
  have a: "configured ''Header.TLabel'' (received (style tm1)) =
             configured ''Header.TLabel'' (received (style tm)) @
               [[(''font'', VTuple [VStr ''Segoe UI'', VInt 12, VStr ''bold'']),
                 (''background'', VStr ''#f8f9fa''),
                 (''foreground'', VStr ''#4a6fa5'')]]"
    by (simp add: s1 configured_append header_label_calls(1))
  have b: "configured ''Header.TLabel'' (received (style tm3)) =
             configured ''Header.TLabel'' (received (style tm2)) @
               [[(''font'', VTuple [VStr ''Segoe UI'', VInt 12, VStr ''bold'']),
                 (''background'', VStr ''#2d2d2d''),
                 (''foreground'', VStr ''#5a86c2'')]]"
    by (simp add: s3 configured_append header_label_calls(2))
  from a b c1 c2 show ?thesis
    unfolding Let_def tm1_def [symmetric] tm2_def [symmetric] tm3_def [symmetric] by simp
qed

theorem header_label_light_then_dark_witness:
  "reachable ThemeManager_init \<and> current_theme ThemeManager_init = ''light'' \<and>
   configured ''Header.TLabel''
     (received (style (snd (setup_styles AppStyles_styles ThemeManager_init)))) =
     [[(''font'', VTuple [VStr ''Segoe UI'', VInt 12, VStr ''bold'']),
       (''background'', VStr ''#f8f9fa''),
       (''foreground'', VStr ''#4a6fa5'')]] \<and>
   configured ''Header.TLabel''
     (received (style (snd (setup_styles AppStyles_styles
        (snd (toggle_theme (snd (setup_styles AppStyles_styles ThemeManager_init)))))))) =
     [[(''font'', VTuple [VStr ''Segoe UI'', VInt 12, VStr ''bold'']),
       (''background'', VStr ''#f8f9fa''),
       (''foreground'', VStr ''#4a6fa5'')],
      [(''font'', VTuple [VStr ''Segoe UI'', VInt 12, VStr ''bold'']),
       (''background'', VStr ''#2d2d2d''),
       (''foreground'', VStr ''#5a86c2'')]]"
proof -
  have c0: "current_theme ThemeManager_init = ''light''" by (simp add: ThemeManager_init_def)
  have s0: "configured ''Header.TLabel'' (received (style ThemeManager_init)) = []"
    by (simp add: ThemeManager_init_def ttk_Style_def)
  note h = header_label_light_then_dark [OF reachable.init c0, unfolded Let_def]
  from h s0 have a:
    "configured ''Header.TLabel''
       (received (style (snd (setup_styles AppStyles_styles ThemeManager_init)))) =
       [[(''font'', VTuple [VStr ''Segoe UI'', VInt 12, VStr ''bold'']),
         (''background'', VStr ''#f8f9fa''),
         (''foreground'', VStr ''#4a6fa5'')]]"
    by simp
  from h have b:
    "configured ''Header.TLabel''
       (received (style (snd (setup_styles AppStyles_styles
          (snd (toggle_theme (snd (setup_styles AppStyles_styles ThemeManager_init)))))))) =
     configured ''Header.TLabel''
       (received (style (snd (toggle_theme (snd (setup_styles AppStyles_styles ThemeManager_init)))))) @
       [[(''font'', VTuple [VStr ''Segoe UI'', VInt 12, VStr ''bold'']),
         (''background'', VStr ''#2d2d2d''),
         (''foreground'', VStr ''#5a86c2'')]]"
    by blast
  show ?thesis
    unfolding b configured_toggle_theme a using reachable.init c0 by simp
qed

lemma get_style_reachable:
  assumes "reachable tm"
  shows "get_style tm ''Action.TButton'' =
           Inr (Some (if current_theme tm = ''light''
                      then [(''background'', VStr ''#e9ecef''), (''foreground'', VStr ''#212529''),
                            (''font'', VTuple [VStr ''Segoe UI'', VInt 10]), (''padding'', VInt 5)]
                      else [(''background'', VStr ''#3d3d3d''), (''foreground'', VStr ''#e0e0e0''),
                            (''font'', VTuple [VStr ''Segoe UI'', VInt 10]), (''padding'', VInt 5)]))"
  using get_current_theme_reachable [OF assms]
  by (simp add: get_style_def get_light_theme_def get_dark_theme_def getitem_def)

lemma action_button_lookups:
  "getitem (colors get_light_theme) ''button_bg'' = Inr (VStr ''#e9ecef'')"
  "getitem (colors get_light_theme) ''fg'' = Inr (VStr ''#212529'')"
  "getitem (fonts get_light_theme) ''default'' = Inr (VTuple [VStr ''Segoe UI'', VInt 10])"
  "getitem (colors get_dark_theme) ''button_bg'' = Inr (VStr ''#3d3d3d'')"
  "getitem (colors get_dark_theme) ''fg'' = Inr (VStr ''#e0e0e0'')"
  "getitem (fonts get_dark_theme) ''default'' = Inr (VTuple [VStr ''Segoe UI'', VInt 10])"
  by (simp_all add: get_light_theme_def get_dark_theme_def getitem_def)

text \<open>
  Claim C4. In every reachable state, \<open>get_style\<close> of "Action.TButton" returns the dict
  of the active theme's colour "button_bg" as background, its colour "fg" as foreground,
  its font "default" as font, and padding 5, the active theme being the entry of the
  themes table under \<open>current_theme\<close>: the light values while "light" is active, the dark
  values while "dark" is. \<open>get_style\<close> of "unknown" returns None.
\<close>

theorem get_style_action_button:
  assumes "reachable tm"
  shows "\<exists>current bg fg font.
           getitem (themes tm) (current_theme tm) = Inr current \<and>
           name current = current_theme tm \<and>
           get_current_theme tm = Inr current \<and>
           getitem (colors current) ''button_bg'' = Inr bg \<and>
           getitem (colors current) ''fg'' = Inr fg \<and>
           getitem (fonts current) ''default'' = Inr font \<and>
           get_style tm ''Action.TButton'' =
             Inr (Some [(''background'', bg), (''foreground'', fg), (''font'', font),
                        (''padding'', VInt 5)]) \<and>
           get_style tm ''unknown'' = Inr None \<and>
           (bg, fg, font) =
             (if current_theme tm = ''light''
              then (VStr ''#e9ecef'', VStr ''#212529'', VTuple [VStr ''Segoe UI'', VInt 10])
              else (VStr ''#3d3d3d'', VStr ''#e0e0e0'', VTuple [VStr ''Segoe UI'', VInt 10]))"
proof -
  let ?cur = "if current_theme tm = ''light'' then get_light_theme else get_dark_theme"
  have c: "get_current_theme tm = Inr ?cur"
    using assms by (rule get_current_theme_reachable)
  then have t: "getitem (themes tm) (current_theme tm) = Inr ?cur"
    by (simp add: get_current_theme_def)
  have n: "name ?cur = current_theme tm"
    using reachable_invariant [OF assms] by (auto simp: theme_names_of)
  have u: "get_style tm ''unknown'' = Inr None" by (simp add: get_style_def)
  show ?thesis
  proof (cases "current_theme tm = ''light''")
    case True
    with c t n u get_style_reachable [OF assms] action_button_lookups(1-3)
    show ?thesis by simp
  next
    case False
    with c t n u get_style_reachable [OF assms] action_button_lookups(4-6)
    show ?thesis by simp
  qed
qed

theorem get_style_action_button_witness:
  "reachable ThemeManager_init \<and>
   get_style ThemeManager_init ''Action.TButton'' =
     Inr (Some [(''background'', VStr ''#e9ecef''), (''foreground'', VStr ''#212529''),
                (''font'', VTuple [VStr ''Segoe UI'', VInt 10]), (''padding'', VInt 5)]) \<and>
   get_style ThemeManager_init ''unknown'' = Inr None \<and>
   reachable (run ToggleTheme ThemeManager_init) \<and>
   current_theme (run ToggleTheme ThemeManager_init) = ''dark'' \<and>
   get_style (run ToggleTheme ThemeManager_init) ''Action.TButton'' =
     Inr (Some [(''background'', VStr ''#3d3d3d''), (''foreground'', VStr ''#e0e0e0''),
                (''font'', VTuple [VStr ''Segoe UI'', VInt 10]), (''padding'', VInt 5)])"
proof -
  have c0: "current_theme ThemeManager_init = ''light''" by (simp add: ThemeManager_init_def)
  from get_style_action_button [OF reachable.init] c0
  have a: "get_style ThemeManager_init ''Action.TButton'' =
     Inr (Some [(''background'', VStr ''#e9ecef''), (''foreground'', VStr ''#212529''),
                (''font'', VTuple [VStr ''Segoe UI'', VInt 10]), (''padding'', VInt 5)])"
    and b: "get_style ThemeManager_init ''unknown'' = Inr None"
    by auto
  from get_style_action_button [OF toggled_init(1)] toggled_init(2)
  have d: "get_style (run ToggleTheme ThemeManager_init) ''Action.TButton'' =
     Inr (Some [(''background'', VStr ''#3d3d3d''), (''foreground'', VStr ''#e0e0e0''),
                (''font'', VTuple [VStr ''Segoe UI'', VInt 10]), (''padding'', VInt 5)])"
    by auto
  from a b d reachable.init toggled_init(1,2) show ?thesis by simp
qed

text \<open>
  Claim C5 says that \<open>get_style\<close> returns a resolved dict for every name of the style
  table. But "Header.TLabel" is a name of the table, and in the initial state
  \<open>get_style\<close> returns None for it.
\<close>

theorem get_style_table_names_counterexample:
  "reachable ThemeManager_init \<and>
   ''Header.TLabel'' \<in> set (map fst AppStyles_styles) \<and>
   get_style ThemeManager_init ''Header.TLabel'' = Inr None"
  by (simp add: reachable.init AppStyles_styles_def get_style_def)

lemma action_button_entry:
  "map_of AppStyles_styles ''Action.TButton'' =
     Some [(''font'', VStr ''fonts.default''), (''padding'', VInt 5),
           (''background'', VStr ''colors.button_bg''), (''foreground'', VStr ''colors.fg'')]"
  by (simp add: AppStyles_styles_def)

lemma action_button_resolved:
  "resolve_config get_light_theme
     [(''font'', VStr ''fonts.default''), (''padding'', VInt 5),
      (''background'', VStr ''colors.button_bg''), (''foreground'', VStr ''colors.fg'')] [] =
   Inr [(''font'', VTuple [VStr ''Segoe UI'', VInt 10]), (''padding'', VInt 5),
        (''background'', VStr ''#e9ecef''), (''foreground'', VStr ''#212529'')]"
  "resolve_config get_dark_theme
     [(''font'', VStr ''fonts.default''), (''padding'', VInt 5),
      (''background'', VStr ''colors.button_bg''), (''foreground'', VStr ''colors.fg'')] [] =
   Inr [(''font'', VTuple [VStr ''Segoe UI'', VInt 10]), (''padding'', VInt 5),
        (''background'', VStr ''#3d3d3d''), (''foreground'', VStr ''#e0e0e0'')]"
  by code_simp+

lemma action_button_spec_resolved:
  "list_all2 (resolved_property get_light_theme)
     [(''font'', VStr ''fonts.default''), (''padding'', VInt 5),
      (''background'', VStr ''colors.button_bg''), (''foreground'', VStr ''colors.fg'')]
     [(''font'', VTuple [VStr ''Segoe UI'', VInt 10]), (''padding'', VInt 5),
      (''background'', VStr ''#e9ecef''), (''foreground'', VStr ''#212529'')]"
  "list_all2 (resolved_property get_dark_theme)
     [(''font'', VStr ''fonts.default''), (''padding'', VInt 5),
      (''background'', VStr ''colors.button_bg''), (''foreground'', VStr ''colors.fg'')]
     [(''font'', VTuple [VStr ''Segoe UI'', VInt 10]), (''padding'', VInt 5),
      (''background'', VStr ''#3d3d3d''), (''foreground'', VStr ''#e0e0e0'')]"
  by code_simp+

text \<open>
  Claim C5, as amended. \<open>get_style\<close> answers for one name of the style table only. In
  every reachable state: for "Action.TButton" it returns a dict that, as a mapping, is
  the table's "Action.TButton" entry resolved against the active theme (the entry of the
  themes table under \<open>current_theme\<close>), with the light values while "light" is active
  and the dark values while "dark" is; for every other name, the six other names of the
  style table included, it returns None.
\<close>

theorem get_style_only_action_button:
  assumes "reachable tm"
  shows "(\<exists>current d cfg resolved.
            getitem (themes tm) (current_theme tm) = Inr current \<and>
            name current = current_theme tm \<and>
            get_current_theme tm = Inr current \<and>
            get_style tm ''Action.TButton'' = Inr (Some d) \<and>
            map_of AppStyles_styles ''Action.TButton'' = Some cfg \<and>
            resolve_config current cfg [] = Inr resolved \<and>
            list_all2 (resolved_property current) cfg resolved \<and>
            map_of d = map_of resolved \<and>
            d = (if current_theme tm = ''light''
                 then [(''background'', VStr ''#e9ecef''), (''foreground'', VStr ''#212529''),
                       (''font'', VTuple [VStr ''Segoe UI'', VInt 10]), (''padding'', VInt 5)]
                 else [(''background'', VStr ''#3d3d3d''), (''foreground'', VStr ''#e0e0e0''),
                       (''font'', VTuple [VStr ''Segoe UI'', VInt 10]), (''padding'', VInt 5)]))
         \<and> (\<forall>n. n \<noteq> ''Action.TButton'' \<longrightarrow> get_style tm n = Inr None)"
proof
  show "\<forall>n. n \<noteq> ''Action.TButton'' \<longrightarrow> get_style tm n = Inr None"
    by (simp add: get_style_def)
next
  let ?cur = "if current_theme tm = ''light'' then get_light_theme else get_dark_theme"
  let ?d = "if current_theme tm = ''light''
            then [(''background'', VStr ''#e9ecef''), (''foreground'', VStr ''#212529''),
                  (''font'', VTuple [VStr ''Segoe UI'', VInt 10]), (''padding'', VInt 5)]
            else [(''background'', VStr ''#3d3d3d''), (''foreground'', VStr ''#e0e0e0''),
                  (''font'', VTuple [VStr ''Segoe UI'', VInt 10]), (''padding'', VInt 5)]"
  let ?cfg = "[(''font'', VStr ''fonts.default''), (''padding'', VInt 5),
               (''background'', VStr ''colors.button_bg''), (''foreground'', VStr ''colors.fg'')]"
  let ?res = "if current_theme tm = ''light''
              then [(''font'', VTuple [VStr ''Segoe UI'', VInt 10]), (''padding'', VInt 5),
                    (''background'', VStr ''#e9ecef''), (''foreground'', VStr ''#212529'')]
              else [(''font'', VTuple [VStr ''Segoe UI'', VInt 10]), (''padding'', VInt 5),
                    (''background'', VStr ''#3d3d3d''), (''foreground'', VStr ''#e0e0e0'')]"
  have c: "get_current_theme tm = Inr ?cur"
    using assms by (rule get_current_theme_reachable)
  then have t: "getitem (themes tm) (current_theme tm) = Inr ?cur"
    by (simp add: get_current_theme_def)
  have n: "name ?cur = current_theme tm"
    using reachable_invariant [OF assms] by (auto simp: theme_names_of)
  have g: "get_style tm ''Action.TButton'' = Inr (Some ?d)"
    using get_style_reachable [OF assms] by simp
  have r: "resolve_config ?cur ?cfg [] = Inr ?res"
    by (cases "current_theme tm = ''light''") (simp_all only: action_button_resolved if_True if_False simp_thms)
  have s: "list_all2 (resolved_property ?cur) ?cfg ?res"
    by (cases "current_theme tm = ''light''") (simp_all only: action_button_spec_resolved if_True if_False simp_thms)
  have m: "map_of ?d = map_of ?res"
    by (rule ext) simp
  from c t n g r s m action_button_entry
  show "\<exists>current d cfg resolved.
            getitem (themes tm) (current_theme tm) = Inr current \<and>
            name current = current_theme tm \<and>
            get_current_theme tm = Inr current \<and>
            get_style tm ''Action.TButton'' = Inr (Some d) \<and>
            map_of AppStyles_styles ''Action.TButton'' = Some cfg \<and>
            resolve_config current cfg [] = Inr resolved \<and>
            list_all2 (resolved_property current) cfg resolved \<and>
            map_of d = map_of resolved \<and>
            d = ?d"
    by blast
qed

theorem get_style_only_action_button_witness:
  "reachable ThemeManager_init \<and>
   get_style ThemeManager_init ''Action.TButton'' =
     Inr (Some [(''background'', VStr ''#e9ecef''), (''foreground'', VStr ''#212529''),
                (''font'', VTuple [VStr ''Segoe UI'', VInt 10]), (''padding'', VInt 5)]) \<and>
   get_style ThemeManager_init ''Main.TFrame'' = Inr None \<and>
   get_style ThemeManager_init ''Treeview.Heading'' = Inr None \<and>
   reachable (run ToggleTheme ThemeManager_init) \<and>
   get_style (run ToggleTheme ThemeManager_init) ''Action.TButton'' =
     Inr (Some [(''background'', VStr ''#3d3d3d''), (''foreground'', VStr ''#e0e0e0''),
                (''font'', VTuple [VStr ''Segoe UI'', VInt 10]), (''padding'', VInt 5)]) \<and>
   get_style (run ToggleTheme ThemeManager_init) ''Login.TEntry'' = Inr None"
proof -
  have c0: "current_theme ThemeManager_init = ''light''" by (simp add: ThemeManager_init_def)
  note h0 = get_style_only_action_button [OF reachable.init]
  note h1 = get_style_only_action_button [OF toggled_init(1)]
  from h0 c0 have a: "get_style ThemeManager_init ''Action.TButton'' =
     Inr (Some [(''background'', VStr ''#e9ecef''), (''foreground'', VStr ''#212529''),
                (''font'', VTuple [VStr ''Segoe UI'', VInt 10]), (''padding'', VInt 5)])"
    by auto
  from h0 have b: "\<forall>n. n \<noteq> ''Action.TButton'' \<longrightarrow> get_style ThemeManager_init n = Inr None"
    by (rule conjunct2)
  from b have c: "get_style ThemeManager_init ''Main.TFrame'' = Inr None" by simp
  from b have d: "get_style ThemeManager_init ''Treeview.Heading'' = Inr None" by simp
  from h1 toggled_init(2) have e: "get_style (run ToggleTheme ThemeManager_init) ''Action.TButton'' =
     Inr (Some [(''background'', VStr ''#3d3d3d''), (''foreground'', VStr ''#e0e0e0''),
                (''font'', VTuple [VStr ''Segoe UI'', VInt 10]), (''padding'', VInt 5)])"
    by auto
  from h1 have "\<forall>n. n \<noteq> ''Action.TButton'' \<longrightarrow> get_style (run ToggleTheme ThemeManager_init) n = Inr None"
    by (rule conjunct2)
  then have f: "get_style (run ToggleTheme ThemeManager_init) ''Login.TEntry'' = Inr None" by simp
  from a c d e f reachable.init toggled_init(1) show ?thesis by simp
qed

text \<open>
  Claim C6 says that \<open>toggle_theme\<close> returns the new theme's record in every reachable
  state. But right after construction the style object does not know the theme "dark":
  \<open>toggle_theme\<close> assigns \<open>current_theme\<close>, then \<^verbatim>\<open>theme_use\<close> raises TclError, and no
  record is returned.
\<close>

theorem toggle_theme_unregistered_counterexample:
  "reachable ThemeManager_init \<and>
   toggle_theme ThemeManager_init =
     (Inl (TclError ''dark''), ThemeManager_init\<lparr>current_theme := ''dark''\<rparr>)"
proof
  show "reachable ThemeManager_init" by (rule reachable.init)
  show "toggle_theme ThemeManager_init =
     (Inl (TclError ''dark''), ThemeManager_init\<lparr>current_theme := ''dark''\<rparr>)"
    by (simp add: toggle_theme_def ThemeManager_init_def ttk_Style_def)
qed

text \<open>
  Claim C6, as amended. In every reachable state \<open>toggle_theme\<close> takes \<open>current_theme\<close>
  from "light" to "dark" or from "dark" to "light". If the style object knows the new
  name, it is told to use it and \<open>toggle_theme\<close> returns the record that the themes
  table holds under the new name; otherwise TclError is raised after the assignment and the
  style object is left as it was. Either way \<open>get_current_theme\<close> called next returns
  the record of the new name. Once both names are registered (as after \<open>setup_themes\<close>
  on a fresh ThemeManager) they stay so, and \<open>toggle_theme\<close> returns.
\<close>

theorem toggle_theme_returns_new_theme:
  assumes "reachable tm"
  shows "\<exists>th tm'.
           snd (toggle_theme tm) = tm' \<and>
           (current_theme tm = ''light'' \<and> current_theme tm' = ''dark'' \<and> th = get_dark_theme
            \<or> current_theme tm = ''dark'' \<and> current_theme tm' = ''light'' \<and> th = get_light_theme) \<and>
           getitem (themes tm') (current_theme tm') = Inr th \<and>
           name th = current_theme tm' \<and>
           get_current_theme tm' = Inr th \<and>
           (if current_theme tm' \<in> set (theme_names (style tm))
            then fst (toggle_theme tm) = Inr th \<and>
                 style tm' = (style tm)\<lparr>received := received (style tm) @ [ThemeUse (current_theme tm')]\<rparr>
            else fst (toggle_theme tm) = Inl (TclError (current_theme tm')) \<and> style tm' = style tm) \<and>
           (registered tm \<longrightarrow> fst (toggle_theme tm) = Inr th \<and> registered tm') \<and>
           (\<forall>m. registered tm \<longrightarrow> registered (run m tm))"
proof -
  let ?tm' = "snd (toggle_theme tm)"
  let ?th = "if current_theme tm = ''light'' then get_dark_theme else get_light_theme"
  have r': "reachable ?tm'" using reachable.step [OF assms, of ToggleTheme] by simp
  have c: "current_theme tm = ''light'' \<or> current_theme tm = ''dark''"
    using reachable_invariant [OF assms] by simp
  have c': "current_theme ?tm' = (if current_theme tm = ''light'' then ''dark'' else ''light'')"
    by (simp add: toggle_theme_current)
  have 2: "current_theme tm = ''light'' \<and> current_theme ?tm' = ''dark'' \<and> ?th = get_dark_theme
            \<or> current_theme tm = ''dark'' \<and> current_theme ?tm' = ''light'' \<and> ?th = get_light_theme"
    using c c' by auto
  have 5: "get_current_theme ?tm' = Inr ?th"
    using get_current_theme_reachable [OF r'] c c' by auto
  then have 4: "getitem (themes ?tm') (current_theme ?tm') = Inr ?th"
    by (simp add: get_current_theme_def)
  have 6: "name ?th = current_theme ?tm'"
    using c c' by (auto simp: theme_names_of)
  have 7: "if current_theme ?tm' \<in> set (theme_names (style tm))
           then fst (toggle_theme tm) = Inr ?th \<and>
                style ?tm' = (style tm)\<lparr>received := received (style tm) @ [ThemeUse (current_theme ?tm')]\<rparr>
           else fst (toggle_theme tm) = Inl (TclError (current_theme ?tm')) \<and> style ?tm' = style tm"
    using toggle_theme_result [OF assms] c by (auto simp: toggle_theme_state)
  have 8: "registered tm \<longrightarrow> fst (toggle_theme tm) = Inr ?th \<and> registered ?tm'"
    using toggle_theme_result [OF assms] c run_registered [of tm ToggleTheme]
    by (auto simp: registered_def)
  have 9: "\<forall>m. registered tm \<longrightarrow> registered (run m tm)"
    by (simp add: run_registered)
  from 2 4 5 6 7 8 9 show ?thesis by blast
qed

theorem toggle_theme_returns_new_theme_witness:
  "reachable (run SetupThemes ThemeManager_init) \<and>
   registered (run SetupThemes ThemeManager_init) \<and>
   current_theme (run SetupThemes ThemeManager_init) = ''light'' \<and>
   fst (toggle_theme (run SetupThemes ThemeManager_init)) = Inr get_dark_theme \<and>
   current_theme (snd (toggle_theme (run SetupThemes ThemeManager_init))) = ''dark'' \<and>
   get_current_theme (snd (toggle_theme (run SetupThemes ThemeManager_init))) = Inr get_dark_theme \<and>
   reachable ThemeManager_init \<and>
   current_theme (snd (toggle_theme ThemeManager_init)) = ''dark'' \<and>
   get_current_theme (snd (toggle_theme ThemeManager_init)) = Inr get_dark_theme"
proof -
  have c0: "current_theme ThemeManager_init = ''light''" by (simp add: ThemeManager_init_def)
  from toggle_theme_returns_new_theme [OF setup_init(1)] setup_init(2,3)
  have a: "fst (toggle_theme (run SetupThemes ThemeManager_init)) = Inr get_dark_theme"
    and b: "current_theme (snd (toggle_theme (run SetupThemes ThemeManager_init))) = ''dark''"
    and c: "get_current_theme (snd (toggle_theme (run SetupThemes ThemeManager_init))) = Inr get_dark_theme"
    by auto
  from toggle_theme_returns_new_theme [OF reachable.init] c0
  have d: "current_theme (snd (toggle_theme ThemeManager_init)) = ''dark''"
    and e: "get_current_theme (snd (toggle_theme ThemeManager_init)) = Inr get_dark_theme"
    by auto
  from a b c d e setup_init reachable.init show ?thesis by simp
qed

lemma table_references_present:
  "\<forall>(n, cfg) \<in> set AppStyles_styles. \<forall>(k, v) \<in> set cfg.
      references_present get_light_theme v \<and> references_present get_dark_theme v"
  by code_simp

lemma table_values_resolve:
  "\<forall>(n, cfg) \<in> set AppStyles_styles. \<forall>(k, v) \<in> set cfg.
      \<not> raises (resolve_value get_light_theme v) \<and> \<not> raises (resolve_value get_dark_theme v)"
  by code_simp

text \<open>
  Claim C7. Every value of the style table that is a reference \<^verbatim>\<open>"colors.<key>"\<close> or
  \<^verbatim>\<open>"fonts.<key>"\<close> names a key of the colours, respectively fonts, table of the light
  theme and of the dark theme; resolving any value of the table against either theme
  raises nothing, and \<open>setup_styles\<close> raises nothing in any reachable state.
\<close>

theorem style_references_resolve_in_both_themes:
  "(\<forall>(n, cfg) \<in> set AppStyles_styles. \<forall>(k, v) \<in> set cfg. \<forall>th \<in> {get_light_theme, get_dark_theme}.
      references_present th v \<and> \<not> raises (resolve_value th v))
   \<and> (\<forall>tm. reachable tm \<longrightarrow> fst (setup_styles AppStyles_styles tm) = None)"
proof
  show "\<forall>(n, cfg) \<in> set AppStyles_styles. \<forall>(k, v) \<in> set cfg. \<forall>th \<in> {get_light_theme, get_dark_theme}.
      references_present th v \<and> \<not> raises (resolve_value th v)"
    using table_references_present table_values_resolve by fastforce
next
  show "\<forall>tm. reachable tm \<longrightarrow> fst (setup_styles AppStyles_styles tm) = None"
    by (simp add: setup_styles_reachable)
qed

theorem style_references_resolve_in_both_themes_witness:
  "(''Header.TLabel'',
      [(''font'', VStr ''fonts.heading''), (''background'', VStr ''colors.bg''),
       (''foreground'', VStr ''colors.primary'')]) \<in> set AppStyles_styles \<and>
   references_present get_light_theme (VStr ''colors.primary'') \<and>
   references_present get_dark_theme (VStr ''colors.primary'') \<and>
   resolve_value get_dark_theme (VStr ''colors.primary'') = Inr (VStr ''#5a86c2'') \<and>
   reachable ThemeManager_init \<and>
   fst (setup_styles AppStyles_styles ThemeManager_init) = None"
proof -
  let ?cfg = "[(''font'', VStr ''fonts.heading''), (''background'', VStr ''colors.bg''),
               (''foreground'', VStr ''colors.primary'')]"
  have e: "(''Header.TLabel'', ?cfg) \<in> set AppStyles_styles"
    by (simp add: AppStyles_styles_def)
  have p: "(''foreground'', VStr ''colors.primary'') \<in> set ?cfg" by simp
  note h = style_references_resolve_in_both_themes
  from h have a: "\<forall>(n, cfg) \<in> set AppStyles_styles. \<forall>(k, v) \<in> set cfg.
      \<forall>th \<in> {get_light_theme, get_dark_theme}. references_present th v \<and> \<not> raises (resolve_value th v)"
    by (rule conjunct1)
  from a e have "\<forall>(k, v) \<in> set ?cfg.
      \<forall>th \<in> {get_light_theme, get_dark_theme}. references_present th v \<and> \<not> raises (resolve_value th v)"
    by fast
  with p have b: "\<forall>th \<in> {get_light_theme, get_dark_theme}.
      references_present th (VStr ''colors.primary'') \<and> \<not> raises (resolve_value th (VStr ''colors.primary''))"
    by fast
  from h reachable.init have c: "fst (setup_styles AppStyles_styles ThemeManager_init) = None"
    by blast
  have d: "resolve_value get_dark_theme (VStr ''colors.primary'') = Inr (VStr ''#5a86c2'')"
    by code_simp
  from b c d e reachable.init show ?thesis by simp
qed

text \<open>
  Claim C8. No operation changes the themes table: the two queries leave the whole
  state as it is, and \<open>toggle_theme\<close> assigns the field \<open>current_theme\<close> only (the style
  object records the call \<^verbatim>\<open>theme_use\<close> when it accepts it). In every reachable state the
  table is the one built at initialization: "light" and "dark" with their names, colours
  and fonts.
\<close>

theorem themes_never_modified:
  "themes (run m tm) = themes tm
   \<and> run GetCurrentTheme tm = tm
   \<and> run (GetStyle style_name) tm = tm
   \<and> run ToggleTheme tm =
       tm\<lparr>current_theme := (if current_theme tm = ''light'' then ''dark'' else ''light''),
          style :=
            (if (if current_theme tm = ''light'' then ''dark'' else ''light'') \<in> set (theme_names (style tm))
             then (style tm)\<lparr>received := received (style tm) @
                    [ThemeUse (if current_theme tm = ''light'' then ''dark'' else ''light'')]\<rparr>
             else style tm)\<rparr>
   \<and> (reachable tm \<longrightarrow> themes tm = [(''light'', get_light_theme), (''dark'', get_dark_theme)])"
  using toggle_theme_state [of tm] by (simp add: run_themes reachable_invariant)

theorem themes_never_modified_witness:
  "reachable (run ToggleTheme (run SetupThemes ThemeManager_init)) \<and>
   themes (run ToggleTheme (run SetupThemes ThemeManager_init)) =
     [(''light'', get_light_theme), (''dark'', get_dark_theme)] \<and>
   run ToggleTheme (run SetupThemes ThemeManager_init) =
     (run SetupThemes ThemeManager_init)
       \<lparr>current_theme := ''dark'',
        style := (style (run SetupThemes ThemeManager_init))
          \<lparr>received := received (style (run SetupThemes ThemeManager_init)) @ [ThemeUse ''dark'']\<rparr>\<rparr> \<and>
   run ToggleTheme ThemeManager_init = ThemeManager_init\<lparr>current_theme := ''dark''\<rparr>"
proof -
  let ?tm = "run SetupThemes ThemeManager_init"
  have r: "reachable (run ToggleTheme ?tm)"
    by (intro reachable.step reachable.init)
  have d: "''dark'' \<in> set (theme_names (style ?tm))"
    using setup_init(3) by (simp add: registered_def)
  have d0: "''dark'' \<notin> set (theme_names (style ThemeManager_init))"
       "current_theme ThemeManager_init = ''light''"
    by (simp_all add: ThemeManager_init_def ttk_Style_def)
  from themes_never_modified [of ToggleTheme "run ToggleTheme ?tm"] r
  have 1: "themes (run ToggleTheme ?tm) = [(''light'', get_light_theme), (''dark'', get_dark_theme)]"
    by blast
  from themes_never_modified [of ToggleTheme ?tm] setup_init(2) d
  have 2: "run ToggleTheme ?tm =
     ?tm\<lparr>current_theme := ''dark'',
         style := (style ?tm)\<lparr>received := received (style ?tm) @ [ThemeUse ''dark'']\<rparr>\<rparr>"
    by simp
  from themes_never_modified [of ToggleTheme ThemeManager_init] d0
  have 3: "run ToggleTheme ThemeManager_init = ThemeManager_init\<lparr>current_theme := ''dark''\<rparr>"
    by simp
  from r 1 2 3 show ?thesis by blast
qed

text \<open>
  Claim C9. In every reachable state \<open>current_theme\<close> is "light" or "dark": it starts as
  "light", \<open>toggle_theme\<close> takes each of the two names to the other, and no other
  operation changes it. So the subscript of the themes table in \<open>get_current_theme\<close>
  finds an entry, and so does the subscript in \<open>toggle_theme\<close>, which is made with the
  name just assigned: \<open>toggle_theme\<close> never raises KeyError.
\<close>

theorem current_theme_light_or_dark:
  assumes "reachable tm"
  shows "(current_theme tm = ''light'' \<or> current_theme tm = ''dark'')
         \<and> (\<exists>th. get_current_theme tm = Inr th)
         \<and> (\<exists>th. getitem (themes (snd (toggle_theme tm))) (current_theme (snd (toggle_theme tm))) = Inr th)
         \<and> (\<forall>k. fst (toggle_theme tm) \<noteq> Inl (KeyError k))
         \<and> current_theme ThemeManager_init = ''light''
         \<and> (current_theme tm = ''light'' \<longrightarrow> current_theme (snd (toggle_theme tm)) = ''dark'')
         \<and> (current_theme tm = ''dark'' \<longrightarrow> current_theme (snd (toggle_theme tm)) = ''light'')
         \<and> (\<forall>m. m \<noteq> ToggleTheme \<longrightarrow> current_theme (run m tm) = current_theme tm)"
proof -
  have r': "reachable (snd (toggle_theme tm))"
    using reachable.step [OF assms, of ToggleTheme] by simp
  have 1: "current_theme tm = ''light'' \<or> current_theme tm = ''dark''"
    using reachable_invariant [OF assms] by simp
  have 2: "\<exists>th. get_current_theme tm = Inr th"
    using get_current_theme_reachable [OF assms] by simp
  have 3: "\<exists>th. getitem (themes (snd (toggle_theme tm))) (current_theme (snd (toggle_theme tm))) = Inr th"
    using get_current_theme_reachable [OF r'] by (simp add: get_current_theme_def)
  have 4: "\<forall>k. fst (toggle_theme tm) \<noteq> Inl (KeyError k)"
    using toggle_theme_result [OF assms] by simp
  have 5: "current_theme ThemeManager_init = ''light''" by (simp add: ThemeManager_init_def)
  have 6: "current_theme tm = ''light'' \<longrightarrow> current_theme (snd (toggle_theme tm)) = ''dark''"
    by (simp add: toggle_theme_current)
  have 7: "current_theme tm = ''dark'' \<longrightarrow> current_theme (snd (toggle_theme tm)) = ''light''"
    by (simp add: toggle_theme_current)
  have 8: "\<forall>m. m \<noteq> ToggleTheme \<longrightarrow> current_theme (run m tm) = current_theme tm"
    by (simp add: run_current_theme)
  from 1 2 3 4 5 6 7 8 show ?thesis by blast
qed

theorem current_theme_light_or_dark_witness:
  "reachable (run ToggleTheme ThemeManager_init) \<and>
   current_theme (run ToggleTheme ThemeManager_init) = ''dark'' \<and>
   get_current_theme (run ToggleTheme ThemeManager_init) = Inr get_dark_theme \<and>
   current_theme (snd (toggle_theme (run ToggleTheme ThemeManager_init))) = ''light'' \<and>
   getitem (themes (snd (toggle_theme (run ToggleTheme ThemeManager_init))))
     (current_theme (snd (toggle_theme (run ToggleTheme ThemeManager_init)))) = Inr get_light_theme"
proof -
  let ?tm = "run ToggleTheme ThemeManager_init"
  note h = current_theme_light_or_dark [OF toggled_init(1)]
  from h obtain th where g: "get_current_theme ?tm = Inr th" by blast
  from h obtain th' where
    f: "getitem (themes (snd (toggle_theme ?tm))) (current_theme (snd (toggle_theme ?tm))) = Inr th'"
    by blast
  from h toggled_init(2) have c: "current_theme (snd (toggle_theme ?tm)) = ''light''" by blast
  have t: "themes (snd (toggle_theme ?tm)) = [(''light'', get_light_theme), (''dark'', get_dark_theme)]"
    using toggled_init(3) by (simp only: toggle_theme_current)
  from g toggled_init(2,3) have "th = get_dark_theme"
    by (simp add: get_current_theme_def getitem_def)
  moreover from f c t have "th' = get_light_theme" by (simp add: getitem_def)
  ultimately show ?thesis using toggled_init(1,2) g f c by simp
qed

lemma theme_tables_agree:
  "map fst (colors get_light_theme) = map fst (colors get_dark_theme)"
  "fonts get_light_theme = fonts get_dark_theme"
  by (simp_all add: get_light_theme_def get_dark_theme_def)

lemma raises_getitem: "raises (getitem d k) = (k \<notin> set (map fst d))"
proof (cases "map_of d k")
  case None
  then have "k \<notin> fst ` set d" by (simp add: map_of_eq_None_iff)
  with None show ?thesis by (simp add: raises_def getitem_def)
next
  case (Some v)
  then have "k \<in> fst ` set d" by (metis map_of_eq_None_iff option.distinct(1))
  with Some show ?thesis by (simp add: raises_def getitem_def)
qed

text \<open>
  Claim C10. The light and the dark theme have the same set of colour keys and the same
  fonts table. So a colour key is missing in one exactly when it is missing in the other,
  and in every reachable state the theme that is active after \<open>toggle_theme\<close> gives every
  font key, and every font reference, the value that the theme active before gave it.
\<close>

theorem themes_same_keys_same_fonts:
  "set (map fst (colors get_light_theme)) = set (map fst (colors get_dark_theme))
   \<and> fonts get_light_theme = fonts get_dark_theme
   \<and> (\<forall>k. raises (getitem (colors get_light_theme) k) = raises (getitem (colors get_dark_theme) k))
   \<and> (\<forall>tm. reachable tm \<longrightarrow>
        (\<exists>th th'. get_current_theme tm = Inr th \<and>
           get_current_theme (snd (toggle_theme tm)) = Inr th' \<and>
           name th' \<noteq> name th \<and>
           (\<forall>k. getitem (fonts th') k = getitem (fonts th) k) \<and>
           (\<forall>v. spec_reference_key ''fonts'' v \<noteq> None \<longrightarrow> resolve_value th' v = resolve_value th v)))"
proof (intro conjI allI impI)
  show "set (map fst (colors get_light_theme)) = set (map fst (colors get_dark_theme))"
    by (simp only: theme_tables_agree(1))
  show "fonts get_light_theme = fonts get_dark_theme" by (rule theme_tables_agree(2))
  show "raises (getitem (colors get_light_theme) k) = raises (getitem (colors get_dark_theme) k)" for k
    by (simp only: raises_getitem theme_tables_agree(1))
next
  fix tm assume r: "reachable tm"
  let ?th = "if current_theme tm = ''light'' then get_light_theme else get_dark_theme"
  let ?th' = "if current_theme tm = ''light'' then get_dark_theme else get_light_theme"
  have r': "reachable (snd (toggle_theme tm))"
    using reachable.step [OF r, of ToggleTheme] by simp
  have f: "fonts ?th' = fonts ?th" by (simp add: theme_tables_agree(2))
  have 1: "get_current_theme tm = Inr ?th" using r by (rule get_current_theme_reachable)
  have 2: "get_current_theme (snd (toggle_theme tm)) = Inr ?th'"
    using get_current_theme_reachable [OF r'] by (simp add: toggle_theme_current)
  have 3: "name ?th' \<noteq> name ?th" by (simp add: theme_names_of)
  have 4: "\<forall>k. getitem (fonts ?th') k = getitem (fonts ?th) k" by (simp only: f) simp
  have 5: "\<forall>v. spec_reference_key ''fonts'' v \<noteq> None \<longrightarrow> resolve_value ?th' v = resolve_value ?th v"
  proof (intro allI impI)
    fix v assume k: "spec_reference_key ''fonts'' v \<noteq> None"
    then obtain s where v: "v = VStr s" and s: "startswith s ''fonts.''"
      by (cases v) (auto simp: spec_reference_key_def split: if_splits)
    from s have "\<not> startswith s ''colors.''"
      by (cases s) (auto simp: startswith_def)
    with v s show "resolve_value ?th' v = resolve_value ?th v"
      unfolding resolve_value_def by (simp only: f pyval.case if_True if_False)
  qed
  from 1 2 3 4 5
  show "\<exists>th th'. get_current_theme tm = Inr th \<and>
           get_current_theme (snd (toggle_theme tm)) = Inr th' \<and>
           name th' \<noteq> name th \<and>
           (\<forall>k. getitem (fonts th') k = getitem (fonts th) k) \<and>
           (\<forall>v. spec_reference_key ''fonts'' v \<noteq> None \<longrightarrow> resolve_value th' v = resolve_value th v)"
    by blast
qed

theorem themes_same_keys_same_fonts_witness:
  "reachable ThemeManager_init \<and>
   get_current_theme ThemeManager_init = Inr get_light_theme \<and>
   get_current_theme (snd (toggle_theme ThemeManager_init)) = Inr get_dark_theme \<and>
   resolve_value get_dark_theme (VStr ''fonts.heading'') =
     resolve_value get_light_theme (VStr ''fonts.heading'') \<and>
   raises (getitem (colors get_light_theme) ''accent'') \<and>
   raises (getitem (colors get_dark_theme) ''accent'') \<and>
   \<not> raises (getitem (colors get_dark_theme) ''primary'')"
proof -
  note h = themes_same_keys_same_fonts
  have c: "get_current_theme ThemeManager_init = Inr get_light_theme"
    by (simp add: get_current_theme_def getitem_def ThemeManager_init_def)
  have t: "get_current_theme (snd (toggle_theme ThemeManager_init)) = Inr get_dark_theme"
    by (simp add: get_current_theme_def toggle_theme_current getitem_def ThemeManager_init_def)
  have k: "spec_reference_key ''fonts'' (VStr ''fonts.heading'') \<noteq> None"
    by (simp add: spec_reference_key_def startswith_def)
  from h reachable.init obtain th th' where
    "get_current_theme ThemeManager_init = Inr th"
    "get_current_theme (snd (toggle_theme ThemeManager_init)) = Inr th'"
    "\<forall>v. spec_reference_key ''fonts'' v \<noteq> None \<longrightarrow> resolve_value th' v = resolve_value th v"
    by blast
  with c t k have 1: "resolve_value get_dark_theme (VStr ''fonts.heading'') =
     resolve_value get_light_theme (VStr ''fonts.heading'')" by simp
  have 2: "raises (getitem (colors get_light_theme) ''accent'')"
    by (simp add: raises_getitem get_light_theme_def)
  from h have "raises (getitem (colors get_light_theme) ''accent'') = raises (getitem (colors get_dark_theme) ''accent'')"
    by blast
  with 2 have 3: "raises (getitem (colors get_dark_theme) ''accent'')" by simp
  have 4: "\<not> raises (getitem (colors get_dark_theme) ''primary'')"
    by (simp add: raises_getitem get_dark_theme_def)
  from reachable.init c t 1 3 2 4 show ?thesis by simp
qed

end
